theory Spec2Isabelle
  imports Complex_Main
begin

section \<open>The store of \<^verbatim>\<open>src/server/index.js\<close>\<close>

text \<open>
  The server keeps its data in five SQLite tables and one process-wide variable.
  Each table is modelled by a field of the record \<open>state\<close>:
  \<^item> \<^verbatim>\<open>users\<close> (\<^verbatim>\<open>username UNIQUE\<close>) is a map from the username to the row;
  \<^item> \<^verbatim>\<open>user_balances\<close> (\<^verbatim>\<open>UNIQUE(username, currency)\<close>) is a map from the pair to the
    amount;
  \<^item> \<^verbatim>\<open>trades\<close>, \<^verbatim>\<open>withdrawals\<close> and \<^verbatim>\<open>deposits\<close> are lists in insertion order; rows
    are never deleted, so the \<^verbatim>\<open>AUTOINCREMENT\<close> id of a row is its position, counted
    from 1.
  The SQL type \<^verbatim>\<open>REAL\<close> and the numbers of JavaScript are modelled by \<open>real\<close>:
  arithmetic is exact, rounding of floating point is not modelled. A value that
  \<^verbatim>\<open>parseFloat\<close> turns into \<^verbatim>\<open>NaN\<close>, and a field that is \<^verbatim>\<open>undefined\<close>, is \<open>None\<close>.
\<close>

record tier =
  seconds :: real
  percent :: "real option"  \<comment> \<open>\<^verbatim>\<open>parseFloat(setting.percent)\<close>\<close>

record user =
  balance :: real
  status :: string
  min_trade_amount :: "real option"
  trade_settings :: "tier list"  \<comment> \<open>the parsed JSON text of the column\<close>

record trade_row =
  t_username :: string
  t_symbol :: string
  t_side :: string
  t_amount :: real
  t_profit :: real
  t_result :: string

record withdrawal =
  w_username :: string
  w_currency :: string
  w_network :: string
  w_amount :: real
  w_address :: string
  w_status :: string

record deposit_row =
  d_username :: string
  d_currency :: "string option"
  d_network :: "string option"
  d_amount :: real
  d_proof_image :: "string option"
  d_status :: string

record state =
  users :: "string \<rightharpoonup> user"
  user_balances :: "string \<times> string \<rightharpoonup> real"
  trades :: "trade_row list"
  withdrawals :: "withdrawal list"
  deposits :: "deposit_row list"
  ADMIN_WIN_SIDE :: string

text \<open>What a handler sends back: \<^verbatim>\<open>res.status(code).json({error: msg})\<close>, or the JSON
  body of a success. \<open>Unhandled\<close> is a handler whose promise rejects (an exception
  outside every \<^verbatim>\<open>try\<close>, or thrown again inside a \<^verbatim>\<open>catch\<close>): no response is sent.
  \<open>Converted_null\<close> is the success of a conversion whose amounts are \<^verbatim>\<open>NaN\<close>, which JSON
  writes as \<^verbatim>\<open>null\<close>.\<close>

datatype reply =
    Error nat string
  | Converted real real       \<comment> \<open>\<^verbatim>\<open>{success, convertedAmount, rate}\<close>\<close>
  | Converted_null            \<comment> \<open>\<^verbatim>\<open>{success, convertedAmount: null, rate: null}\<close>\<close>
  | Pending nat               \<comment> \<open>\<^verbatim>\<open>{id, status: "pending"}\<close>\<close>
  | Settled string real       \<comment> \<open>\<^verbatim>\<open>{result, profit}\<close>\<close>
  | Success
  | Unhandled

text \<open>The statements of the three money-moving handlers that reach the database. A
  fault plan \<open>F\<close> says which of them throw, and with which message; \<open>no_faults\<close> is
  the database that always answers.\<close>

datatype stmt =
    SelectStatus | SelectSettings | SelectUser | SelectBalance
  | Begin | DeductLegacy | DeductMirror | DeductCoin
  | CreditLegacy | CreditMirror | CreditCoin
  | InsertTrade | UpdateBalance | InsertWithdrawal | Commit

type_synonym faults = "stmt \<Rightarrow> string option"

definition no_faults :: faults where
  "no_faults = (\<lambda>s. None)"

subsection \<open>JavaScript truthiness\<close>

text \<open>\<^verbatim>\<open>!x\<close> holds of a string field that is \<^verbatim>\<open>undefined\<close> or empty, and of a number
  that is \<^verbatim>\<open>undefined\<close>, \<^verbatim>\<open>NaN\<close> or zero. \<open>present\<close> and \<open>nonzero\<close> keep the truthy
  values.\<close>

definition present :: "string option \<Rightarrow> string option" where
  "present x = (case x of None \<Rightarrow> None | Some s \<Rightarrow> if s = [] then None else Some s)"

definition nonzero :: "real option \<Rightarrow> real option" where
  "nonzero x = (case x of None \<Rightarrow> None | Some r \<Rightarrow> if r = 0 then None else Some r)"

subsection \<open>The SQL statements\<close>

text \<open>\<^verbatim>\<open>UPDATE users SET balance = balance + ? WHERE username=?\<close>: no row, no change.\<close>

definition add_balance :: "string \<Rightarrow> real \<Rightarrow> state \<Rightarrow> state" where
  "add_balance username d st =
     (case users st username of
        None \<Rightarrow> st
      | Some usr \<Rightarrow> st\<lparr>users := (users st)(username \<mapsto> usr\<lparr>balance := balance usr + d\<rparr>)\<rparr>)"

text \<open>\<^verbatim>\<open>UPDATE user_balances SET amount = amount - ? WHERE username=? AND currency=?\<close>\<close>

definition sub_coin :: "string \<Rightarrow> string \<Rightarrow> real \<Rightarrow> state \<Rightarrow> state" where
  "sub_coin username currency d st =
     (case user_balances st (username, currency) of
        None \<Rightarrow> st
      | Some b \<Rightarrow> st\<lparr>user_balances := (user_balances st)((username, currency) \<mapsto> b - d)\<rparr>)"

text \<open>The same with \<^verbatim>\<open>AND amount >= ?\<close>, as the conversion uses it on the USDT row.\<close>

definition sub_coin_if_enough :: "string \<Rightarrow> string \<Rightarrow> real \<Rightarrow> state \<Rightarrow> state" where
  "sub_coin_if_enough username currency d st =
     (case user_balances st (username, currency) of
        None \<Rightarrow> st
      | Some b \<Rightarrow> if b \<ge> d
                  then st\<lparr>user_balances := (user_balances st)((username, currency) \<mapsto> b - d)\<rparr>
                  else st)"

text \<open>\<^verbatim>\<open>INSERT INTO user_balances ... ON CONFLICT(username, currency) DO UPDATE SET
  amount = amount + ?\<close>\<close>

definition upsert_coin :: "string \<Rightarrow> string \<Rightarrow> real \<Rightarrow> state \<Rightarrow> state" where
  "upsert_coin username currency d st =
     st\<lparr>user_balances := (user_balances st)((username, currency) \<mapsto>
          (case user_balances st (username, currency) of None \<Rightarrow> d | Some b \<Rightarrow> b + d))\<rparr>"

definition insert_trade :: "trade_row \<Rightarrow> state \<Rightarrow> state" where
  "insert_trade r st = st\<lparr>trades := trades st @ [r]\<rparr>"

definition insert_withdrawal :: "withdrawal \<Rightarrow> state \<Rightarrow> state" where
  "insert_withdrawal r st = st\<lparr>withdrawals := withdrawals st @ [r]\<rparr>"

definition insert_deposit :: "deposit_row \<Rightarrow> state \<Rightarrow> state" where
  "insert_deposit r st = st\<lparr>deposits := deposits st @ [r]\<rparr>"

text \<open>\<^verbatim>\<open>SELECT * FROM t WHERE id=?\<close> on a table kept as a list.\<close>

definition row :: "'a list \<Rightarrow> nat \<Rightarrow> 'a option" where
  "row xs i = (if 0 < i \<and> i \<le> length xs then Some (xs ! (i - 1)) else None)"

text \<open>Statements run one after the other until one throws: the result is the state
  reached and the message thrown, if any. Outside a transaction every statement
  is committed as it runs, so the state reached is what the database holds.\<close>

fun exec :: "faults \<Rightarrow> (stmt \<times> ('s \<Rightarrow> 's)) list \<Rightarrow> 's \<Rightarrow> 's \<times> string option" where
  "exec F [] st = (st, None)"
| "exec F ((s, upd) # rest) st =
     (case F s of Some m \<Rightarrow> (st, Some m) | None \<Rightarrow> exec F rest (upd st))"

text \<open>The balance a user can spend: \<^verbatim>\<open>users.balance\<close> for USDT, the row of
  \<^verbatim>\<open>user_balances\<close> for every other currency, nothing where there is no row.\<close>

definition available :: "state \<Rightarrow> string \<Rightarrow> string \<Rightarrow> real" where
  "available st username currency =
     (if currency = ''USDT''
      then (case users st username of None \<Rightarrow> 0 | Some usr \<Rightarrow> balance usr)
      else (case user_balances st (username, currency) of None \<Rightarrow> 0 | Some b \<Rightarrow> b))"

section \<open>POST /api/trade\<close>

text \<open>The body of a trade request. \<^verbatim>\<open>seconds\<close> and the \<^verbatim>\<open>seconds\<close> of a tier are
  numbers (a numeric string compares as its number under \<^verbatim>\<open>==\<close>); \<open>None\<close> is a field
  that is missing or does not parse.\<close>

record trade_req =
  tr_username :: string
  tr_symbol :: string
  tr_side :: string
  tr_amount :: "real option"   \<comment> \<open>\<^verbatim>\<open>parseFloat(req.body.amount)\<close>\<close>
  tr_seconds :: "real option"
  tr_percent :: "real option" \<comment> \<open>\<^verbatim>\<open>parseFloat(req.body.percent)\<close>\<close>

text \<open>\<^verbatim>\<open>user.min_trade_amount || 10\<close>\<close>

definition minAmount :: "user \<Rightarrow> real" where
  "minAmount usr = (case nonzero (min_trade_amount usr) of None \<Rightarrow> 10 | Some m \<Rightarrow> m)"

text \<open>The payout percent. With a truthy \<^verbatim>\<open>seconds\<close>, the first tier with
  \<^verbatim>\<open>s.seconds == seconds\<close> replaces the caller's percent by its own. Then a percent
  that is falsy or not a number is replaced by \<^verbatim>\<open>parseFloat(req.body.percent) || 0\<close>.\<close>

definition tier_percent :: "user \<Rightarrow> trade_req \<Rightarrow> real option" where
  "tier_percent usr req =
     (case nonzero (tr_seconds req) of
        None \<Rightarrow> tr_percent req
      | Some secs \<Rightarrow>
          (case find (\<lambda>s. seconds s = secs) (trade_settings usr) of
             None \<Rightarrow> tr_percent req
           | Some setting \<Rightarrow> percent setting))"

definition resolve_percent :: "user \<Rightarrow> trade_req \<Rightarrow> real" where
  "resolve_percent usr req =
     (case nonzero (tier_percent usr req) of
        None \<Rightarrow> (case nonzero (tr_percent req) of None \<Rightarrow> 0 | Some p \<Rightarrow> p)
      | Some p \<Rightarrow> p)"

text \<open>The handler. The lookup of the user's settings sits in a first \<^verbatim>\<open>try\<close>, the
  \<^verbatim>\<open>INSERT INTO trades\<close> and the \<^verbatim>\<open>UPDATE users\<close> in a second one, which opens no
  transaction: what has run before an exception stays in the database.\<close>

definition trade :: "faults \<Rightarrow> state \<Rightarrow> trade_req \<Rightarrow> state \<times> reply" where
  "trade F st req =
     (case F SelectSettings of
        Some m \<Rightarrow> (st, Error 500 ''Validation failed'')
      | None \<Rightarrow>
     (case users st (tr_username req) of
        None \<Rightarrow> (st, Error 404 ''User not found'')
      | Some usr \<Rightarrow>
          if (case tr_amount req of None \<Rightarrow> False | Some a \<Rightarrow> a < minAmount usr)
          then (st, Error 400 ''Insufficient balance'')
          else
            let pct = resolve_percent usr req in
            (case tr_amount req of
               None \<Rightarrow> (st, Error 400 ''Invalid amount'')
             | Some a \<Rightarrow>
                 if a \<le> 0 then (st, Error 400 ''Invalid amount'')
                 else
                   let win = (tr_side req = ADMIN_WIN_SIDE st);
                       profit = (if win then a * (pct / 100) else - a);
                       result = (if win then ''win'' else ''lose'')
                   in (case exec F
                          [(InsertTrade, insert_trade
                              \<lparr>t_username = tr_username req, t_symbol = tr_symbol req,
                               t_side = tr_side req, t_amount = a, t_profit = profit,
                               t_result = result\<rparr>),
                           (UpdateBalance, add_balance (tr_username req) profit)] st of
                         (st', Some m) \<Rightarrow> (st', Error 500 ''Trade failed'')
                       | (st', None) \<Rightarrow> (st', Settled result profit)))))"

text \<open>POST /api/admin/winside\<close>

definition winside :: "string \<Rightarrow> state \<Rightarrow> state \<times> string" where
  "winside s st = (st\<lparr>ADMIN_WIN_SIDE := s\<rparr>, s)"

section \<open>POST /api/convert\<close>

record convert_req =
  c_username :: "string option"  \<comment> \<open>\<^verbatim>\<open>req.cookies.user || req.headers['x-user']\<close>\<close>
  fromCurrency :: "string option"
  toCurrency :: "string option"
  c_amount :: "real option"

subsection \<open>The price lookup\<close>

text \<open>\<^verbatim>\<open>getPrices()\<close> returns a plain object whose own properties are the prices. The
  handler reads it with \<^verbatim>\<open>prices[c]\<close>, and \<open>c\<close> is any string the caller sent: where
  the object has no own property \<open>c\<close>, the lookup goes on to \<^verbatim>\<open>Object.prototype\<close>, and
  for the twelve names below it finds a member there, a function (for \<^verbatim>\<open>__proto__\<close>
  the prototype object itself), and not \<^verbatim>\<open>undefined\<close>.\<close>

datatype jsval = Undefined | Number real | Object

definition object_prototype :: "string list" where
  "object_prototype =
     [''constructor'', ''__defineGetter__'', ''__defineSetter__'', ''hasOwnProperty'',
      ''__lookupGetter__'', ''__lookupSetter__'', ''isPrototypeOf'',
      ''propertyIsEnumerable'', ''toString'', ''valueOf'', ''__proto__'',
      ''toLocaleString'']"

definition prices_get :: "(string \<rightharpoonup> real) \<Rightarrow> string \<Rightarrow> jsval" where
  "prices_get prices c =
     (case prices c of
        Some p \<Rightarrow> Number p
      | None \<Rightarrow> if c \<in> set object_prototype then Object else Undefined)"

text \<open>\<^verbatim>\<open>!v\<close> holds of \<^verbatim>\<open>undefined\<close> and of the number zero; a function or an object is
  truthy. In arithmetic a function or an object counts as \<^verbatim>\<open>NaN\<close>, which is \<open>None\<close>
  here, and a product or quotient with \<^verbatim>\<open>NaN\<close> is \<^verbatim>\<open>NaN\<close>. The handler divides by a
  truthy price only, so never by the number zero.\<close>

definition falsy :: "jsval \<Rightarrow> bool" where
  "falsy v = (case v of Undefined \<Rightarrow> True | Number p \<Rightarrow> p = 0 | Object \<Rightarrow> False)"

definition to_number :: "jsval \<Rightarrow> real option" where
  "to_number v = (case v of Undefined \<Rightarrow> None | Number p \<Rightarrow> Some p | Object \<Rightarrow> None)"

definition nan_times :: "real option \<Rightarrow> real option \<Rightarrow> real option" where
  "nan_times x y = (case (x, y) of (Some a, Some b) \<Rightarrow> Some (a * b) | _ \<Rightarrow> None)"

definition nan_over :: "real option \<Rightarrow> real option \<Rightarrow> real option" where
  "nan_over x y = (case (x, y) of (Some a, Some b) \<Rightarrow> Some (a / b) | _ \<Rightarrow> None)"

text \<open>The price of a currency, where the handler finds one that it accepts and that
  is a number.\<close>

definition price_of :: "(string \<rightharpoonup> real) \<Rightarrow> string \<Rightarrow> real option" where
  "price_of prices c =
     (if falsy (prices_get prices c) then None else to_number (prices_get prices c))"

text \<open>\<^verbatim>\<open>if (!toCurrency) toCurrency = 'USDT'\<close>\<close>

definition target_currency :: "convert_req \<Rightarrow> string" where
  "target_currency req = (case present (toCurrency req) of None \<Rightarrow> ''USDT'' | Some t \<Rightarrow> t)"

text \<open>Step 2 of the handler, the balance check: \<open>Inl\<close> is an exception of the
  \<^verbatim>\<open>SELECT\<close>, \<open>Inr (Some msg)\<close> the refusal, \<open>Inr None\<close> a sufficient balance.\<close>

definition check_balance :: "faults \<Rightarrow> state \<Rightarrow> string \<Rightarrow> string \<Rightarrow> real \<Rightarrow> string + string option" where
  "check_balance F st username from a =
     (if from = ''USDT''
      then (case F SelectUser of
              Some m \<Rightarrow> Inl m
            | None \<Rightarrow>
                (case users st username of
                   None \<Rightarrow> Inr (Some ''Insufficient USDT balance'')
                 | Some usr \<Rightarrow>
                     if balance usr < a then Inr (Some ''Insufficient USDT balance'')
                     else Inr None))
      else (case F SelectBalance of
              Some m \<Rightarrow> Inl m
            | None \<Rightarrow>
                (case user_balances st (username, from) of
                   None \<Rightarrow> Inr (Some ''Insufficient balance'')
                 | Some b \<Rightarrow>
                     if b < a then Inr (Some ''Insufficient balance'') else Inr None)))"

subsection \<open>Amounts that are not numbers\<close>

text \<open>SQLite stores a parameter that is \<^verbatim>\<open>NaN\<close> as \<^verbatim>\<open>NULL\<close>, and a sum with \<^verbatim>\<open>NULL\<close> is
  \<^verbatim>\<open>NULL\<close>. The tables of \<open>state\<close> hold numbers only. What the database holds after
  a conversion is therefore a \<open>store\<close>: the rows whose numbers are numbers, in
  \<open>typed\<close>, and the rows whose number is \<^verbatim>\<open>NULL\<close>, with their other columns, in
  \<open>nulled\<close>, in the order they were written.\<close>

datatype null_row =
    Null_user string string "real option" "tier list"
      \<comment> \<open>a row of \<^verbatim>\<open>users\<close>: username, status, min_trade_amount, trade_settings\<close>
  | Null_coin string string
      \<comment> \<open>a row of \<^verbatim>\<open>user_balances\<close>: username, currency\<close>
  | Null_trade string string string real string
      \<comment> \<open>a row of \<^verbatim>\<open>trades\<close>: username, symbol, side, amount, result\<close>

record store =
  typed :: state
  nulled :: "null_row list"

definition store_of :: "state \<Rightarrow> store" where
  "store_of st = \<lparr>typed = st, nulled = []\<rparr>"

definition on_typed :: "(state \<Rightarrow> state) \<Rightarrow> store \<Rightarrow> store" where
  "on_typed upd db = db\<lparr>typed := upd (typed db)\<rparr>"

text \<open>\<^verbatim>\<open>UPDATE users SET balance = balance + ? WHERE username=?\<close>\<close>

definition credit_balance :: "string \<Rightarrow> real option \<Rightarrow> store \<Rightarrow> store" where
  "credit_balance username targetAmount db =
     (case targetAmount of
        Some t \<Rightarrow> on_typed (add_balance username t) db
      | None \<Rightarrow>
          (case users (typed db) username of
             None \<Rightarrow> db
           | Some usr \<Rightarrow>
               db\<lparr>typed := (typed db)\<lparr>users := (users (typed db))(username := None)\<rparr>,
                  nulled := nulled db @
                    [Null_user username (status usr) (min_trade_amount usr)
                       (trade_settings usr)]\<rparr>))"

text \<open>\<^verbatim>\<open>INSERT INTO user_balances ... ON CONFLICT(username, currency) DO UPDATE SET
  amount = amount + ?\<close>\<close>

definition credit_coin :: "string \<Rightarrow> string \<Rightarrow> real option \<Rightarrow> store \<Rightarrow> store" where
  "credit_coin username currency targetAmount db =
     (case targetAmount of
        Some t \<Rightarrow> on_typed (upsert_coin username currency t) db
      | None \<Rightarrow>
          db\<lparr>typed := (typed db)\<lparr>user_balances :=
                   (user_balances (typed db))((username, currency) := None)\<rparr>,
             nulled := nulled db @ [Null_coin username currency]\<rparr>)"

text \<open>\<^verbatim>\<open>INSERT INTO trades (username, symbol, side, amount, profit, result)
  VALUES (?, ?, 'convert', ?, ?, 'win')\<close>\<close>

definition log_convert :: "string \<Rightarrow> string \<Rightarrow> real \<Rightarrow> real option \<Rightarrow> store \<Rightarrow> store" where
  "log_convert username symbol a targetAmount db =
     (case targetAmount of
        Some t \<Rightarrow>
          on_typed (insert_trade
            \<lparr>t_username = username, t_symbol = symbol, t_side = ''convert'',
             t_amount = a, t_profit = t, t_result = ''win''\<rparr>) db
      | None \<Rightarrow>
          db\<lparr>nulled := nulled db @ [Null_trade username symbol ''convert'' a ''win'']\<rparr>)"

text \<open>Steps 4 to 6, the statements between \<^verbatim>\<open>BEGIN TRANSACTION\<close> and \<^verbatim>\<open>COMMIT\<close>.\<close>

definition convert_body ::
  "string \<Rightarrow> string \<Rightarrow> string \<Rightarrow> real \<Rightarrow> real option \<Rightarrow> (stmt \<times> (store \<Rightarrow> store)) list" where
  "convert_body username from to a targetAmount =
     (if from = ''USDT''
      then [(DeductLegacy, on_typed (add_balance username (- a))),
            (DeductMirror, on_typed (sub_coin_if_enough username ''USDT'' a))]
      else [(DeductCoin, on_typed (sub_coin username from a))]) @
     (if to = ''USDT''
      then [(CreditLegacy, credit_balance username targetAmount),
            (CreditMirror, credit_coin username ''USDT'' targetAmount)]
      else [(CreditCoin, credit_coin username to targetAmount)]) @
     [(InsertTrade, log_convert username (from @ ''-'' @ to) a targetAmount),
      (Commit, id)]"

text \<open>\<^verbatim>\<open>res.json({ success: true, convertedAmount: targetAmount, rate: pFrom/pTo })\<close>\<close>

definition converted :: "real option \<Rightarrow> real option \<Rightarrow> reply" where
  "converted targetAmount rate =
     (case (targetAmount, rate) of
        (Some t, Some r) \<Rightarrow> Converted t r
      | _ \<Rightarrow> Converted_null)"

text \<open>The handler. \<open>prices\<close> holds the own properties of the object \<^verbatim>\<open>getPrices()\<close>
  returned for this request. An exception inside the \<^verbatim>\<open>try\<close> runs \<^verbatim>\<open>ROLLBACK\<close>, which
  gives back the state at \<^verbatim>\<open>BEGIN\<close>; before a transaction is open, \<^verbatim>\<open>ROLLBACK\<close> throws
  itself and no response is sent.\<close>

definition convert_db :: "faults \<Rightarrow> (string \<rightharpoonup> real) \<Rightarrow> state \<Rightarrow> convert_req \<Rightarrow> store \<times> reply" where
  "convert_db F prices st req =
     (case present (c_username req) of
        None \<Rightarrow> (store_of st, Error 401 ''Unauthorized'')
      | Some username \<Rightarrow>
     let to = target_currency req in
     (case (present (fromCurrency req), nonzero (c_amount req)) of
        (None, _) \<Rightarrow> (store_of st, Error 400 ''Invalid parameters'')
      | (Some from, None) \<Rightarrow> (store_of st, Error 400 ''Invalid parameters'')
      | (Some from, Some a) \<Rightarrow>
          if a \<le> 0 then (store_of st, Error 400 ''Invalid parameters'')
          else if from = to then (store_of st, Error 400 ''Cannot convert to same currency'')
          else
            let pFrom = prices_get prices from;
                pTo = prices_get prices to
            in
            if falsy pFrom
            then (store_of st, Error 400 (''Price not available for '' @ from))
            else if falsy pTo
            then (store_of st, Error 400 (''Price not available for '' @ to))
            else
              (case check_balance F st username from a of
                 Inl m \<Rightarrow> (store_of st, Unhandled)
               | Inr (Some msg) \<Rightarrow> (store_of st, Error 400 msg)
               | Inr None \<Rightarrow>
                   let valUsdt = nan_times (Some a) (to_number pFrom);
                       targetAmount = nan_over valUsdt (to_number pTo)
                   in (case F Begin of
                         Some m \<Rightarrow> (store_of st, Unhandled)
                       | None \<Rightarrow>
                           (case exec F (convert_body username from to a targetAmount)
                                   (store_of st) of
                              (db, Some m) \<Rightarrow> (store_of st, Error 500 m)
                            | (db, None) \<Rightarrow>
                                (db, converted targetAmount
                                       (nan_over (to_number pFrom) (to_number pTo))))))))"

text \<open>The handler on the tables of numbers: the rows of the store whose numbers are
  numbers, and the reply.\<close>

definition convert :: "faults \<Rightarrow> (string \<rightharpoonup> real) \<Rightarrow> state \<Rightarrow> convert_req \<Rightarrow> state \<times> reply" where
  "convert F prices st req =
     (typed (fst (convert_db F prices st req)), snd (convert_db F prices st req))"

section \<open>POST /api/withdraw and POST /api/withdraw/:id/status\<close>

record withdraw_req =
  wr_username :: "string option"
  wr_currency :: "string option"
  wr_network :: "string option"
  wr_amount :: "real option"
  wr_address :: "string option"

text \<open>Step 1, check and deduct: \<open>Inl\<close> is an exception, \<open>Inr None\<close> is
  \<^verbatim>\<open>balanceDeducted === false\<close>, \<open>Inr (Some st')\<close> the state after the deduction.
  USDT is taken from the row of \<^verbatim>\<open>user_balances\<close> when that row holds enough, and
  from \<^verbatim>\<open>users.balance\<close> otherwise.\<close>

definition deduct :: "faults \<Rightarrow> state \<Rightarrow> string \<Rightarrow> string \<Rightarrow> real \<Rightarrow> string + state option" where
  "deduct F st username currency a =
     (if currency = ''USDT''
      then
        (case F SelectBalance of
           Some m \<Rightarrow> Inl m
         | None \<Rightarrow>
             if (case user_balances st (username, ''USDT'') of None \<Rightarrow> False | Some b \<Rightarrow> b \<ge> a)
             then (case F DeductMirror of
                     Some m \<Rightarrow> Inl m
                   | None \<Rightarrow> Inr (Some (sub_coin username ''USDT'' a st)))
             else
               (case F SelectUser of
                  Some m \<Rightarrow> Inl m
                | None \<Rightarrow>
                    if (case users st username of None \<Rightarrow> False | Some usr \<Rightarrow> balance usr \<ge> a)
                    then (case F DeductLegacy of
                            Some m \<Rightarrow> Inl m
                          | None \<Rightarrow> Inr (Some (add_balance username (- a) st)))
                    else Inr None))
      else
        (case F SelectBalance of
           Some m \<Rightarrow> Inl m
         | None \<Rightarrow>
             if (case user_balances st (username, currency) of None \<Rightarrow> False | Some b \<Rightarrow> b \<ge> a)
             then (case F DeductCoin of
                     Some m \<Rightarrow> Inl m
                   | None \<Rightarrow> Inr (Some (sub_coin username currency a st)))
             else Inr None))"

definition frozen :: "state \<Rightarrow> string \<Rightarrow> bool" where
  "frozen st username =
     (case users st username of None \<Rightarrow> False | Some usr \<Rightarrow> status usr = ''frozen'')"

definition withdraw :: "faults \<Rightarrow> state \<Rightarrow> withdraw_req \<Rightarrow> state \<times> reply" where
  "withdraw F st req =
     (case present (wr_username req) of
        None \<Rightarrow> (st, Error 401 ''Unauthorized'')
      | Some username \<Rightarrow>
     (case F SelectStatus of
        Some m \<Rightarrow> (st, Unhandled)
      | None \<Rightarrow>
     if frozen st username then (st, Error 403 ''Account frozen'')
     else
     (case (present (wr_currency req), present (wr_network req),
            nonzero (wr_amount req), present (wr_address req)) of
        (Some currency, Some network, Some a, Some address) \<Rightarrow>
          (case F Begin of
             Some m \<Rightarrow> (st, Unhandled)
           | None \<Rightarrow>
               (case deduct F st username currency a of
                  Inl m \<Rightarrow> (st, Error 500 m)
                | Inr None \<Rightarrow> (st, Error 400 ''Insufficient balance'')
                | Inr (Some st1) \<Rightarrow>
                    (case exec F
                       [(InsertWithdrawal, insert_withdrawal
                           \<lparr>w_username = username, w_currency = currency,
                            w_network = network, w_amount = a, w_address = address,
                            w_status = ''pending''\<rparr>),
                        (Commit, id)] st1 of
                       (st', Some m) \<Rightarrow> (st, Error 500 m)
                     | (st', None) \<Rightarrow> (st', Pending (length (withdrawals st'))))))
      | _ \<Rightarrow> (st, Error 400 ''Missing fields''))))"

text \<open>The admin's decision on a withdrawal. The store is taken to answer here (no
  fault plan). A rejection gives the amount back: USDT to \<^verbatim>\<open>users.balance\<close>, every
  other currency to its row of \<^verbatim>\<open>user_balances\<close>.\<close>

definition set_withdrawal_status :: "nat \<Rightarrow> string \<Rightarrow> state \<Rightarrow> state" where
  "set_withdrawal_status i s st =
     (case row (withdrawals st) i of
        None \<Rightarrow> st
      | Some w \<Rightarrow> st\<lparr>withdrawals := (withdrawals st)[i - 1 := w\<lparr>w_status := s\<rparr>]\<rparr>)"

definition withdraw_status :: "state \<Rightarrow> nat \<Rightarrow> string \<Rightarrow> state \<times> reply" where
  "withdraw_status st i s =
     (if s \<noteq> ''approved'' \<and> s \<noteq> ''rejected'' then (st, Error 400 ''Invalid status'')
      else
        (case row (withdrawals st) i of
           None \<Rightarrow> (st, Error 404 ''Withdrawal not found'')
         | Some w \<Rightarrow>
             if w_status w \<noteq> ''pending'' then (st, Error 400 ''Withdrawal already processed'')
             else
               let st1 = set_withdrawal_status i s st in
               if s = ''rejected''
               then (if w_currency w = ''USDT''
                     then (add_balance (w_username w) (w_amount w) st1, Success)
                     else (upsert_coin (w_username w) (w_currency w) (w_amount w) st1, Success))
               else (st1, Success)))"

section \<open>POST /api/deposit and POST /api/deposit/:id/status\<close>

text \<open>The deposit handler reads \<^verbatim>\<open>currency\<close>, \<^verbatim>\<open>network\<close> and \<^verbatim>\<open>amount\<close> from the body
  and inserts them as they are; the amount is taken to be a number.\<close>

record deposit_req =
  dr_username :: "string option"
  dr_currency :: "string option"
  dr_network :: "string option"
  dr_amount :: real
  dr_proof_image :: "string option"

definition deposit :: "state \<Rightarrow> deposit_req \<Rightarrow> state \<times> reply" where
  "deposit st req =
     (case present (dr_username req) of
        None \<Rightarrow> (st, Error 401 ''Unauthorized'')
      | Some username \<Rightarrow>
          if frozen st username then (st, Error 403 ''Account frozen'')
          else
            let st' = insert_deposit
                        \<lparr>d_username = username, d_currency = dr_currency req,
                         d_network = dr_network req, d_amount = dr_amount req,
                         d_proof_image = dr_proof_image req, d_status = ''pending''\<rparr> st
            in (st', Pending (length (deposits st'))))"

definition set_deposit_status :: "nat \<Rightarrow> string \<Rightarrow> state \<Rightarrow> state" where
  "set_deposit_status i s st =
     (case row (deposits st) i of
        None \<Rightarrow> st
      | Some d \<Rightarrow> st\<lparr>deposits := (deposits st)[i - 1 := d\<lparr>d_status := s\<rparr>]\<rparr>)"

definition deposit_status :: "state \<Rightarrow> nat \<Rightarrow> string \<Rightarrow> state \<times> reply" where
  "deposit_status st i s =
     (let st1 = set_deposit_status i s st in
      if s = ''approved''
      then (case row (deposits st1) i of
              None \<Rightarrow> (st1, Success)
            | Some dep \<Rightarrow> (add_balance (d_username dep) (d_amount dep) st1, Success))
      else (st1, Success))"

section \<open>The admin's balance operations\<close>

text \<open>POST /api/admin/users/balance\<close>

definition admin_balance :: "state \<Rightarrow> string \<Rightarrow> real \<Rightarrow> state \<times> reply" where
  "admin_balance st username d = (add_balance username d st, Success)"

text \<open>POST /api/admin/users/add-coin-balance; the amount is \<open>None\<close> when the body has
  none.\<close>

definition add_coin_balance :: "state \<Rightarrow> string option \<Rightarrow> string option \<Rightarrow> real option \<Rightarrow> state \<times> reply" where
  "add_coin_balance st username currency amount =
     (case (present username, present currency, amount) of
        (Some u, Some c, Some val) \<Rightarrow>
          let st1 = upsert_coin u c val st in
          if c = ''USDT'' then (add_balance u val st1, Success) else (st1, Success)
      | _ \<Rightarrow> (st, Error 400 ''Missing fields''))"

section \<open>Sample data\<close>

text \<open>The table \<^verbatim>\<open>getPrices()\<close> returns when the price feed cannot be reached.\<close>

definition fallback_prices :: "string \<rightharpoonup> real" where
  "fallback_prices =
     [''BTC'' \<mapsto> 95000, ''ETH'' \<mapsto> 3600, ''BNB'' \<mapsto> 600, ''SOL'' \<mapsto> 150, ''USDT'' \<mapsto> 1]"

text \<open>A store with two users. Alice holds 1000 USDT, in \<^verbatim>\<open>users.balance\<close> and in her USDT
  row alike, and 2 BTC; her second tier pays 0 percent. Bob holds 30 USDT and has no
  settings of his own. The admin has set the winning side to \<^verbatim>\<open>long\<close>, as
  \<^verbatim>\<open>src/test_trade.js\<close> does.\<close>

definition alice :: user where
  "alice = \<lparr>balance = 1000, status = ''active'', min_trade_amount = Some 10,
            trade_settings = [\<lparr>seconds = 60, percent = Some 30\<rparr>,
                              \<lparr>seconds = 120, percent = Some 0\<rparr>]\<rparr>"

definition bob :: user where
  "bob = \<lparr>balance = 30, status = ''active'', min_trade_amount = None, trade_settings = []\<rparr>"

definition st0 :: state where
  "st0 = \<lparr>users = [''alice'' \<mapsto> alice, ''bob'' \<mapsto> bob],
          user_balances = [(''alice'', ''USDT'') \<mapsto> 1000, (''alice'', ''BTC'') \<mapsto> 2],
          trades = [], withdrawals = [], deposits = [], ADMIN_WIN_SIDE = ''long''\<rparr>"

text \<open>The two trades of \<^verbatim>\<open>src/test_trade.js\<close>: 100 at 50 percent, long and short.\<close>

definition trade_long :: trade_req where
  "trade_long = \<lparr>tr_username = ''alice'', tr_symbol = ''BTC'', tr_side = ''long'',
                 tr_amount = Some 100, tr_seconds = None, tr_percent = Some 50\<rparr>"

definition trade_short :: trade_req where
  "trade_short = trade_long\<lparr>tr_side := ''short''\<rparr>"

text \<open>Bob loses 100 while he holds 30.\<close>

definition trade_bob :: trade_req where
  "trade_bob = trade_short\<lparr>tr_username := ''bob''\<rparr>"

text \<open>A trade on Alice's 120 second tier by a caller who asks for 500 percent.\<close>

definition trade_tier :: trade_req where
  "trade_tier = trade_long\<lparr>tr_seconds := Some 120, tr_percent := Some 500\<rparr>"

text \<open>A database whose \<^verbatim>\<open>UPDATE users SET balance\<close> of the trade handler throws.\<close>

definition update_fails :: faults where
  "update_fails = no_faults(UpdateBalance \<mapsto> ''SQLITE_BUSY'')"

definition convert_btc :: convert_req where
  "convert_btc = \<lparr>c_username = Some ''alice'', fromCurrency = Some ''BTC'',
                  toCurrency = None, c_amount = Some 1\<rparr>"

text \<open>The same request with a target that no price table lists.\<close>

definition convert_constructor :: convert_req where
  "convert_constructor = convert_btc\<lparr>toCurrency := Some ''constructor''\<rparr>"

definition withdraw_usdt :: "real \<Rightarrow> withdraw_req" where
  "withdraw_usdt a = \<lparr>wr_username = Some ''alice'', wr_currency = Some ''USDT'',
       wr_network = Some ''TRC20'', wr_amount = Some a, wr_address = Some ''T1''\<rparr>"

definition deposit_usdt :: "real \<Rightarrow> deposit_req" where
  "deposit_usdt a = \<lparr>dr_username = Some ''alice'', dr_currency = Some ''USDT'',
       dr_network = Some ''TRC20'', dr_amount = a, dr_proof_image = None\<rparr>"

section \<open>Facts about the statements\<close>

lemma exec_no_faults: "exec no_faults stmts st = (fold (\<lambda>(s, upd). upd) stmts st, None)"
  by (induction stmts arbitrary: st) (auto simp: no_faults_def)

lemma users_add_balance:
  "users (add_balance u d st) =
     (case users st u of
        None \<Rightarrow> users st
      | Some usr \<Rightarrow> (users st)(u \<mapsto> usr\<lparr>balance := balance usr + d\<rparr>))"
  by (simp add: add_balance_def split: option.splits)

lemma users_insert_trade [simp]: "users (insert_trade r st) = users st"
  by (simp add: insert_trade_def)

lemma trades_add_balance [simp]: "trades (add_balance u d st) = trades st"
  by (simp add: add_balance_def split: option.splits)

lemma check_balance_enough:
  assumes "0 < a" and "a \<le> available st u from"
  shows "check_balance no_faults st u from a = Inr None"
  using assms
  by (cases "from = ''USDT''")
     (auto simp: check_balance_def no_faults_def available_def split: option.splits)

section \<open>Trade settlement\<close>

text \<open>A trade of an existing user whose amount is a positive number, not below the
  user's minimum, settles when the database answers: the row is appended and the
  profit is added to \<^verbatim>\<open>users.balance\<close>.\<close>

lemma trade_settles:
  assumes "users st (tr_username req) = Some usr"
    and "tr_amount req = Some a" and "0 < a" and "minAmount usr \<le> a"
  shows "trade no_faults st req =
           (let win = (tr_side req = ADMIN_WIN_SIDE st);
                profit = (if win then a * (resolve_percent usr req / 100) else - a);
                result = (if win then ''win'' else ''lose'')
            in (add_balance (tr_username req) profit
                  (insert_trade \<lparr>t_username = tr_username req, t_symbol = tr_symbol req,
                     t_side = tr_side req, t_amount = a, t_profit = profit,
                     t_result = result\<rparr> st),
                Settled result profit))"
  using assms by (simp add: trade_def no_faults_def Let_def)

text \<open>
  \<^bold>\<open>Claim C2.\<close> For every trade settlement whose parsed amount is positive and at or
  above the user's minimum, the result is \<^verbatim>\<open>win\<close> if and only if the side equals
  \<^verbatim>\<open>ADMIN_WIN_SIDE\<close>; the profit returned, and added to the user's balance, is
  \<open>amount * (percent / 100)\<close> on a win and \<open>- amount\<close> on a loss, where \<open>percent\<close> is the
  payout percent the handler resolved.
\<close>

theorem trade_outcome_profit:
  assumes "users st (tr_username req) = Some usr"
    and "tr_amount req = Some a" and "0 < a" and "minAmount usr \<le> a"
  shows "\<exists>result profit.
           snd (trade no_faults st req) = Settled result profit \<and>
           (result = ''win'' \<longleftrightarrow> tr_side req = ADMIN_WIN_SIDE st) \<and>
           (result = ''lose'' \<longleftrightarrow> tr_side req \<noteq> ADMIN_WIN_SIDE st) \<and>
           profit = (if tr_side req = ADMIN_WIN_SIDE st
                     then a * (resolve_percent usr req / 100) else - a) \<and>
           users (fst (trade no_faults st req)) =
             (users st)(tr_username req \<mapsto> usr\<lparr>balance := balance usr + profit\<rparr>) \<and>
           trades (fst (trade no_faults st req)) =
             trades st @ [\<lparr>t_username = tr_username req, t_symbol = tr_symbol req,
                           t_side = tr_side req, t_amount = a, t_profit = profit,
                           t_result = result\<rparr>]"
  using assms
  by (simp add: trade_settles [OF assms] Let_def users_add_balance insert_trade_def)

theorem trade_outcome_profit_witness:
  "users st0 (tr_username trade_long) = Some alice \<and>
   tr_amount trade_long = Some 100 \<and> (0::real) < 100 \<and> minAmount alice \<le> 100 \<and>
   snd (trade no_faults st0 trade_long) = Settled ''win'' 50 \<and>
   map_option balance (users (fst (trade no_faults st0 trade_long)) ''alice'') = Some 1050"
proof -
  have h1: "users st0 (tr_username trade_long) = Some alice"
    by (simp add: st0_def trade_long_def)
  have h2: "tr_amount trade_long = Some 100"
    by (simp add: trade_long_def)
  have h3: "minAmount alice \<le> 100"
    by (simp add: minAmount_def nonzero_def alice_def)
  have side: "tr_side trade_long = ADMIN_WIN_SIDE st0"
    by (simp add: trade_long_def st0_def)
  have pct: "resolve_percent alice trade_long = 50"
    by (simp add: resolve_percent_def tier_percent_def nonzero_def trade_long_def)
  have bal: "balance alice = 1000"
    by (simp add: alice_def)
  have name: "tr_username trade_long = ''alice''"
    by (simp add: trade_long_def)
  have h0: "(0::real) < 100" by simp
  from trade_outcome_profit [OF h1 h2 h0 h3]
  obtain result profit where
    r: "snd (trade no_faults st0 trade_long) = Settled result profit"
       "result = ''win'' \<longleftrightarrow> tr_side trade_long = ADMIN_WIN_SIDE st0"
       "profit = (if tr_side trade_long = ADMIN_WIN_SIDE st0
                  then 100 * (resolve_percent alice trade_long / 100) else - 100)"
       "users (fst (trade no_faults st0 trade_long)) =
          (users st0)(tr_username trade_long \<mapsto> alice\<lparr>balance := balance alice + profit\<rparr>)"
    by blast
  from r(2) side have "result = ''win''" by simp
  moreover from r(3) side pct have "profit = 50" by simp
  ultimately show ?thesis
    using h1 h2 h3 r(1) r(4) by (simp add: name bal)
qed

text \<open>
  \<^bold>\<open>Claim C7.\<close> A losing trade subtracts the amount from the user's balance without
  asking whether the balance suffices: for every existing user and every losing
  trade of a valid amount \<open>a\<close> (positive, not below the user's minimum), the
  settlement answers \<^verbatim>\<open>lose\<close> with profit \<open>- a\<close>, the
  balance becomes \<open>balance - a\<close>, and it is negative whenever the user held less
  than \<open>a\<close>.
\<close>

theorem losing_trade_unchecked:
  assumes "users st (tr_username req) = Some usr"
    and "tr_amount req = Some a" and "0 < a" and "minAmount usr \<le> a"
    and "tr_side req \<noteq> ADMIN_WIN_SIDE st"
  shows "snd (trade no_faults st req) = Settled ''lose'' (- a) \<and>
         users (fst (trade no_faults st req)) (tr_username req) =
           Some (usr\<lparr>balance := balance usr - a\<rparr>) \<and>
         (balance usr < a \<longrightarrow>
            (\<exists>usr'. users (fst (trade no_faults st req)) (tr_username req) = Some usr' \<and>
                    balance usr' < 0))"
  using assms(1,5)
  by (simp add: trade_settles [OF assms(1-4)] Let_def users_add_balance)

theorem losing_trade_unchecked_witness:
  "users st0 (tr_username trade_bob) = Some bob \<and>
   tr_amount trade_bob = Some 100 \<and> (0::real) < 100 \<and> minAmount bob \<le> 100 \<and>
   tr_side trade_bob \<noteq> ADMIN_WIN_SIDE st0 \<and> balance bob < 100 \<and>
   snd (trade no_faults st0 trade_bob) = Settled ''lose'' (- 100) \<and>
   map_option balance (users (fst (trade no_faults st0 trade_bob)) ''bob'') = Some (- 70)"
proof -
  have h1: "users st0 (tr_username trade_bob) = Some bob"
    by (simp add: st0_def trade_bob_def trade_short_def trade_long_def)
  have h2: "tr_amount trade_bob = Some 100"
    by (simp add: trade_bob_def trade_short_def trade_long_def)
  have h3: "minAmount bob \<le> 100"
    by (simp add: minAmount_def nonzero_def bob_def)
  have h4: "tr_side trade_bob \<noteq> ADMIN_WIN_SIDE st0"
    by (simp add: trade_bob_def trade_short_def trade_long_def st0_def)
  have name: "tr_username trade_bob = ''bob''"
    by (simp add: trade_bob_def)
  have bal: "balance bob = 30"
    by (simp add: bob_def)
  from losing_trade_unchecked [OF h1 h2 _ h3 h4]
  show ?thesis
    using h1 h2 h3 h4 by (simp add: name bal)
qed

section \<open>Conversion\<close>

text \<open>An accepted price that is a number is an own property of the price object,
  and not zero.\<close>

lemma price_of_Some:
  assumes "price_of prices c = Some p"
  shows "prices_get prices c = Number p \<and> p \<noteq> 0"
  using assms
  by (cases "prices_get prices c")
     (auto simp: price_of_def falsy_def to_number_def split: if_splits)

text \<open>A conversion that passes every check runs all statements of its transaction
  when the database answers.\<close>

lemma convert_succeeds:
  assumes "present (c_username req) = Some u"
    and "present (fromCurrency req) = Some from"
    and "c_amount req = Some a" and "0 < a"
    and "from \<noteq> target_currency req"
    and "price_of prices from = Some pf"
    and "price_of prices (target_currency req) = Some pt"
    and "a \<le> available st u from"
  shows "convert_db no_faults prices st req =
           (fold (\<lambda>(s, upd). upd)
              (convert_body u from (target_currency req) a (Some (a * pf / pt))) (store_of st),
            Converted (a * pf / pt) (pf / pt))"
proof -
  have nz: "nonzero (c_amount req) = Some a"
    using assms(3,4) by (simp add: nonzero_def)
  have nf: "no_faults Begin = None"
    by (simp add: no_faults_def)
  note pf = price_of_Some [OF assms(6)] and pt = price_of_Some [OF assms(7)]
  show ?thesis
    using assms(4,5) pf pt
    by (simp add: convert_db_def assms(1,2) nz Let_def nf exec_no_faults falsy_def
        to_number_def nan_times_def nan_over_def converted_def
        check_balance_enough [OF assms(4,8)])
qed

lemma available_body_from:
  assumes "from \<noteq> to" and "0 < a" and "a \<le> available st u from"
  shows "available (typed (fold (\<lambda>(s, upd). upd) (convert_body u from to a (Some t))
                             (store_of st))) u from
           = available st u from - a"
  using assms
  by (cases "from = ''USDT''"; cases "to = ''USDT''")
     (auto simp: convert_body_def store_of_def on_typed_def credit_balance_def credit_coin_def
        log_convert_def available_def add_balance_def sub_coin_def
        sub_coin_if_enough_def upsert_coin_def insert_trade_def split: option.splits)

lemma available_body_to:
  assumes "from \<noteq> to" and "users st u \<noteq> None"
  shows "available (typed (fold (\<lambda>(s, upd). upd) (convert_body u from to a (Some t))
                             (store_of st))) u to
           = available st u to + t"
  using assms
  by (cases "from = ''USDT''"; cases "to = ''USDT''")
     (auto simp: convert_body_def store_of_def on_typed_def credit_balance_def credit_coin_def
        log_convert_def available_def add_balance_def sub_coin_def
        sub_coin_if_enough_def upsert_coin_def insert_trade_def split: option.splits)

lemma trades_body:
  "trades (typed (fold (\<lambda>(s, upd). upd) (convert_body u from to a (Some t)) (store_of st)))
     = trades st @ [\<lparr>t_username = u, t_symbol = from @ ''-'' @ to, t_side = ''convert'',
                      t_amount = a, t_profit = t, t_result = ''win''\<rparr>]"
  by (cases "from = ''USDT''"; cases "to = ''USDT''")
     (auto simp: convert_body_def store_of_def on_typed_def credit_balance_def credit_coin_def
        log_convert_def add_balance_def sub_coin_def
        sub_coin_if_enough_def upsert_coin_def insert_trade_def split: option.splits)

text \<open>A conversion between two priced currencies writes numbers only, and the
  store of the handler holds a row with \<^verbatim>\<open>NULL\<close> only after the reply with \<^verbatim>\<open>null\<close>
  amounts: in every other case the tables of numbers are the whole store.\<close>

lemma exec_body_numbers:
  "nulled (fst (exec F (convert_body u from to a (Some t)) (store_of st))) = []"
  by (cases "from = ''USDT''"; cases "to = ''USDT''")
     (auto simp: convert_body_def store_of_def on_typed_def credit_balance_def credit_coin_def
        log_convert_def split: option.splits)

lemma convert_numbers_only:
  "nulled (fst (convert_db F prices st req)) = [] \<or>
   snd (convert_db F prices st req) = Converted_null"
proof -
  have body: "nulled db = [] \<or> t = None"
    if "exec F (convert_body u c d a t) (store_of st) = (db, r)" for u c d a t db r
  proof (cases t)
    case None
    then show ?thesis by simp
  next
    case (Some x)
    with that exec_body_numbers [of F u c d a x st] show ?thesis by simp
  qed
  have start: "nulled (store_of st) = []"
    by (simp add: store_of_def)
  show ?thesis
    by (auto simp: convert_db_def start converted_def Let_def nan_over_def nan_times_def
        split: option.splits sum.splits prod.splits if_splits dest: body)
qed

text \<open>
  \<^bold>\<open>Claim C1.\<close> For every valid conversion request of an existing user (amount > 0,
  source and target currency different, both prices available, enough of the
  source currency), \<open>convert\<close> lowers the user's balance in the source currency by
  exactly the amount, raises the balance in the target currency by exactly
  \<open>amount * price(from) / price(to)\<close>, appends one trade row with side \<^verbatim>\<open>convert\<close>, the
  amount, the converted amount as profit and result \<^verbatim>\<open>win\<close>, and returns the converted
  amount and the rate \<open>price(from) / price(to)\<close>. The balance of a currency is the one
  the handler checks: \<^verbatim>\<open>users.balance\<close> for USDT, the row of \<^verbatim>\<open>user_balances\<close> otherwise.
\<close>

theorem convert_valid_request:
  assumes "present (c_username req) = Some u" and "users st u \<noteq> None"
    and "present (fromCurrency req) = Some from"
    and "c_amount req = Some a" and "0 < a"
    and "from \<noteq> target_currency req"
    and "price_of prices from = Some pf"
    and "price_of prices (target_currency req) = Some pt"
    and "a \<le> available st u from"
  shows "snd (convert no_faults prices st req) = Converted (a * pf / pt) (pf / pt) \<and>
         available (fst (convert no_faults prices st req)) u from = available st u from - a \<and>
         available (fst (convert no_faults prices st req)) u (target_currency req) =
           available st u (target_currency req) + a * pf / pt \<and>
         trades (fst (convert no_faults prices st req)) =
           trades st @ [\<lparr>t_username = u, t_symbol = from @ ''-'' @ target_currency req,
                          t_side = ''convert'', t_amount = a, t_profit = a * pf / pt,
                          t_result = ''win''\<rparr>]"
  by (simp add: convert_def convert_succeeds [OF assms(1,3-9)]
      available_body_from [OF assms(6,5,9)] available_body_to [OF assms(6,2)] trades_body)

theorem convert_valid_request_witness:
  "present (c_username convert_btc) = Some ''alice'' \<and> users st0 ''alice'' \<noteq> None \<and>
   present (fromCurrency convert_btc) = Some ''BTC'' \<and>
   c_amount convert_btc = Some 1 \<and> (0::real) < 1 \<and>
   ''BTC'' \<noteq> target_currency convert_btc \<and>
   price_of fallback_prices ''BTC'' = Some 95000 \<and>
   price_of fallback_prices (target_currency convert_btc) = Some 1 \<and>
   1 \<le> available st0 ''alice'' ''BTC'' \<and>
   snd (convert no_faults fallback_prices st0 convert_btc) = Converted 95000 95000 \<and>
   available (fst (convert no_faults fallback_prices st0 convert_btc)) ''alice'' ''BTC'' = 1 \<and>
   available (fst (convert no_faults fallback_prices st0 convert_btc)) ''alice'' ''USDT'' = 96000"
proof -
  have tgt: "target_currency convert_btc = ''USDT''"
    by (simp add: target_currency_def present_def convert_btc_def)
  have h1: "present (c_username convert_btc) = Some ''alice''"
    by (simp add: present_def convert_btc_def)
  have h2: "users st0 ''alice'' \<noteq> None"
    by (simp add: st0_def)
  have h3: "present (fromCurrency convert_btc) = Some ''BTC''"
    by (simp add: present_def convert_btc_def)
  have h4: "c_amount convert_btc = Some 1"
    by (simp add: convert_btc_def)
  have h5: "(0::real) < 1" by simp
  have h6: "''BTC'' \<noteq> target_currency convert_btc"
    by (simp add: tgt)
  have h7: "price_of fallback_prices ''BTC'' = Some 95000"
    by (simp add: price_of_def prices_get_def falsy_def to_number_def fallback_prices_def)
  have h8: "price_of fallback_prices (target_currency convert_btc) = Some 1"
    by (simp add: tgt price_of_def prices_get_def falsy_def to_number_def fallback_prices_def)
  have btc: "available st0 ''alice'' ''BTC'' = 2"
    by (simp add: available_def st0_def)
  have usdt: "available st0 ''alice'' ''USDT'' = 1000"
    by (simp add: available_def st0_def alice_def)
  have h9: "1 \<le> available st0 ''alice'' ''BTC''"
    by (simp add: btc)
  from convert_valid_request [OF h1 h2 h3 h4 h5 h6 h7 h8 h9]
  show ?thesis
    using h1 h2 h3 h4 h6 h7 h8 h9 by (simp add: tgt btc usdt)
qed

text \<open>A well-formed request (a user, a source currency, a positive amount, a different
  target currency) is refused with status 400, and the store left as it was, when
  the handler finds no price for one of the currencies, and otherwise when the
  user's available balance in the source currency is below the amount.\<close>

lemma convert_refuses:
  assumes "present (c_username req) = Some u"
    and "present (fromCurrency req) = Some from"
    and "c_amount req = Some a" and "0 < a"
    and "from \<noteq> target_currency req"
  shows "(falsy (prices_get prices from) \<or> falsy (prices_get prices (target_currency req)) \<longrightarrow>
            convert F prices st req =
              (st, Error 400 (''Price not available for '' @
                    (if falsy (prices_get prices from) then from else target_currency req)))) \<and>
         (\<not> falsy (prices_get prices from) \<and> \<not> falsy (prices_get prices (target_currency req)) \<and>
          F SelectUser = None \<and> F SelectBalance = None \<and> available st u from < a \<longrightarrow>
            convert F prices st req =
              (st, Error 400 (if from = ''USDT'' then ''Insufficient USDT balance''
                              else ''Insufficient balance'')))"
proof -
  have nz: "nonzero (c_amount req) = Some a"
    using assms(3,4) by (simp add: nonzero_def)
  show ?thesis
    using assms(4,5)
    by (auto simp: convert_def convert_db_def store_of_def assms(1,2) nz Let_def
        check_balance_def available_def split: option.splits)
qed

text \<open>The handler finds no price for a currency that is not an own property of the
  price object and not one of the names of \<^verbatim>\<open>Object.prototype\<close>.\<close>

lemma unpriced_falsy:
  assumes "prices c = None" and "c \<notin> set object_prototype"
  shows "falsy (prices_get prices c)"
  using assms by (simp add: prices_get_def falsy_def)

text \<open>A target that the price object does not list but every object inherits passes
  the price test: with a priced source and enough of it, the conversion is carried
  out with amounts that are not numbers, and the source is debited.\<close>

lemma inherited_target_converts:
  assumes "present (c_username req) = Some u"
    and "present (fromCurrency req) = Some from"
    and "c_amount req = Some a" and "0 < a"
    and "from \<noteq> target_currency req"
    and "price_of prices from = Some pf"
    and "prices (target_currency req) = None"
    and "target_currency req \<in> set object_prototype"
    and "a \<le> available st u from"
  shows "snd (convert no_faults prices st req) = Converted_null \<and>
         available (fst (convert no_faults prices st req)) u from = available st u from - a"
proof -
  have nz: "nonzero (c_amount req) = Some a"
    using assms(3,4) by (simp add: nonzero_def)
  have nf: "no_faults Begin = None"
    by (simp add: no_faults_def)
  note pf = price_of_Some [OF assms(6)]
  have pt: "prices_get prices (target_currency req) = Object"
    using assms(7,8) by (simp add: prices_get_def)
  have usdt: "target_currency req \<noteq> ''USDT''"
    using assms(8) by (auto simp: object_prototype_def)
  have run: "convert_db no_faults prices st req =
           (fold (\<lambda>(s, upd). upd) (convert_body u from (target_currency req) a None) (store_of st),
            Converted_null)"
    using assms(4,5) pf
    by (simp add: convert_db_def assms(1,2) nz Let_def nf exec_no_faults falsy_def pt
        to_number_def nan_times_def nan_over_def converted_def
        check_balance_enough [OF assms(4,9)])
  have av: "available (typed (fold (\<lambda>(s, upd). upd)
               (convert_body u from (target_currency req) a None) (store_of st))) u from
             = available st u from - a"
    using assms(4,5,9) usdt
    by (cases "from = ''USDT''")
       (auto simp: convert_body_def store_of_def on_typed_def credit_balance_def credit_coin_def
          log_convert_def available_def add_balance_def sub_coin_def
          sub_coin_if_enough_def split: option.splits)
  show ?thesis
    by (simp add: convert_def run av)
qed

text \<open>
  \<^bold>\<open>Claim C6.\<close> The claim is that a conversion is refused with \<^verbatim>\<open>Price not available\<close>,
  and nothing is changed, when either currency is absent from the price mapping.
  The handler tests \<^verbatim>\<open>!pFrom || !pTo\<close> on \<^verbatim>\<open>prices[c]\<close>, and for a name that every object
  inherits the lookup gives a function, which passes the test. The fallback table
  has no price for \<^verbatim>\<open>constructor\<close>. Alice holds 2 BTC and converts 1 BTC into
  \<^verbatim>\<open>constructor\<close>: the handler answers with a success whose amounts are \<^verbatim>\<open>null\<close>, her
  BTC row goes down to 1, and a row of \<^verbatim>\<open>user_balances\<close> for \<^verbatim>\<open>constructor\<close> and a row
  of \<^verbatim>\<open>trades\<close> are written with \<^verbatim>\<open>NULL\<close> for the number.
\<close>

theorem inherited_price_accepted:
  "fallback_prices ''constructor'' = None \<and>
   prices_get fallback_prices ''constructor'' = Object \<and>
   user_balances st0 (''alice'', ''BTC'') = Some 2 \<and>
   snd (convert_db no_faults fallback_prices st0 convert_constructor) = Converted_null \<and>
   user_balances (typed (fst (convert_db no_faults fallback_prices st0 convert_constructor)))
     (''alice'', ''BTC'') = Some 1 \<and>
   nulled (fst (convert_db no_faults fallback_prices st0 convert_constructor)) =
     [Null_coin ''alice'' ''constructor'',
      Null_trade ''alice'' ''BTC-constructor'' ''convert'' 1 ''win''] \<and>
   snd (convert no_faults fallback_prices st0 convert_constructor) = Converted_null \<and>
   user_balances (fst (convert no_faults fallback_prices st0 convert_constructor))
     (''alice'', ''BTC'') = Some 1"
  by (simp add: convert_def convert_db_def convert_constructor_def convert_btc_def
      present_def nonzero_def target_currency_def prices_get_def object_prototype_def
      fallback_prices_def falsy_def to_number_def nan_times_def nan_over_def converted_def
      check_balance_def no_faults_def st0_def store_of_def convert_body_def on_typed_def
      sub_coin_def credit_coin_def log_convert_def Let_def)

text \<open>
  \<^bold>\<open>Claim C10.\<close> A conversion request without \<^verbatim>\<open>toCurrency\<close> is handled exactly as the
  same request with \<^verbatim>\<open>toCurrency = "USDT"\<close>, whatever the store, the prices and the
  database do. In particular a request from USDT without a target never changes
  the store, and is refused as a conversion to the same currency as soon as it
  names a user and a positive amount; and a valid request from any other currency
  without a target credits USDT.
\<close>

theorem convert_default_target:
  "convert F prices st (req\<lparr>toCurrency := None\<rparr>) =
     convert F prices st (req\<lparr>toCurrency := Some ''USDT''\<rparr>) \<and>
   fst (convert F prices st (req\<lparr>fromCurrency := Some ''USDT'', toCurrency := None\<rparr>)) = st \<and>
   (present (c_username req) \<noteq> None \<and> (\<exists>a. c_amount req = Some a \<and> 0 < a) \<longrightarrow>
      snd (convert F prices st (req\<lparr>fromCurrency := Some ''USDT'', toCurrency := None\<rparr>)) =
        Error 400 ''Cannot convert to same currency'') \<and>
   (\<forall>u from a pf pt.
      present (c_username req) = Some u \<and> users st u \<noteq> None \<and>
      present (fromCurrency req) = Some from \<and> from \<noteq> ''USDT'' \<and>
      c_amount req = Some a \<and> 0 < a \<and>
      price_of prices from = Some pf \<and> price_of prices ''USDT'' = Some pt \<and>
      a \<le> available st u from \<longrightarrow>
      snd (convert no_faults prices st (req\<lparr>toCurrency := None\<rparr>)) =
        Converted (a * pf / pt) (pf / pt) \<and>
      available (fst (convert no_faults prices st (req\<lparr>toCurrency := None\<rparr>))) u ''USDT'' =
        available st u ''USDT'' + a * pf / pt)"
proof -
  have tgt: "target_currency (r\<lparr>toCurrency := None\<rparr>) = ''USDT''" for r :: convert_req
    by (simp add: target_currency_def present_def)
  have same: "convert F prices st (req\<lparr>toCurrency := None\<rparr>) =
                convert F prices st (req\<lparr>toCurrency := Some ''USDT''\<rparr>)"
    by (auto simp: convert_def convert_db_def target_currency_def present_def Let_def
        split: option.splits)
  have kept: "fst (convert F prices st (req\<lparr>fromCurrency := Some ''USDT'', toCurrency := None\<rparr>)) = st"
    by (auto simp: convert_def convert_db_def store_of_def tgt present_def Let_def
        split: option.splits)
  have refused: "snd (convert F prices st (req\<lparr>fromCurrency := Some ''USDT'', toCurrency := None\<rparr>)) =
                   Error 400 ''Cannot convert to same currency''"
    if "present (c_username req) \<noteq> None" and "\<exists>a. c_amount req = Some a \<and> 0 < a"
    using that
    by (auto simp: convert_def convert_db_def store_of_def tgt present_def nonzero_def Let_def
        split: option.splits)
  have credited:
    "snd (convert no_faults prices st (req\<lparr>toCurrency := None\<rparr>)) =
        Converted (a * pf / pt) (pf / pt) \<and>
     available (fst (convert no_faults prices st (req\<lparr>toCurrency := None\<rparr>))) u ''USDT'' =
        available st u ''USDT'' + a * pf / pt"
    if h: "present (c_username req) = Some u" "users st u \<noteq> None"
      "present (fromCurrency req) = Some c" "c \<noteq> ''USDT''"
      "c_amount req = Some a" "0 < a"
      "price_of prices c = Some pf" "price_of prices ''USDT'' = Some pt"
      "a \<le> available st u c"
    for u c a pf pt
  proof -
    let ?r = "req\<lparr>toCurrency := None\<rparr>"
    have ok: "convert no_faults prices st ?r =
           (typed (fold (\<lambda>(s, upd). upd) (convert_body u c ''USDT'' a (Some (a * pf / pt)))
                     (store_of st)),
            Converted (a * pf / pt) (pf / pt))"
      using convert_succeeds [of ?r u c a prices pf pt st] h by (simp add: convert_def tgt)
    show ?thesis
      by (simp add: ok available_body_to [OF h(4,2)])
  qed
  from same kept refused credited show ?thesis
    by blast
qed

theorem convert_default_target_witness:
  "convert no_faults fallback_prices st0 (convert_btc\<lparr>toCurrency := None\<rparr>) =
     convert no_faults fallback_prices st0 (convert_btc\<lparr>toCurrency := Some ''USDT''\<rparr>) \<and>
   present (c_username convert_btc) \<noteq> None \<and>
   (\<exists>a. c_amount convert_btc = Some a \<and> 0 < a) \<and>
   convert no_faults fallback_prices st0
       (convert_btc\<lparr>fromCurrency := Some ''USDT'', toCurrency := None\<rparr>) =
     (st0, Error 400 ''Cannot convert to same currency'') \<and>
   snd (convert no_faults fallback_prices st0 (convert_btc\<lparr>toCurrency := None\<rparr>)) =
     Converted 95000 95000 \<and>
   available (fst (convert no_faults fallback_prices st0 (convert_btc\<lparr>toCurrency := None\<rparr>)))
       ''alice'' ''USDT'' = 96000"
proof -
  have h1: "present (c_username convert_btc) = Some ''alice''"
    by (simp add: present_def convert_btc_def)
  have h2: "users st0 ''alice'' \<noteq> None"
    by (simp add: st0_def)
  have h3: "present (fromCurrency convert_btc) = Some ''BTC''"
    by (simp add: present_def convert_btc_def)
  have h4: "c_amount convert_btc = Some 1"
    by (simp add: convert_btc_def)
  have h7: "price_of fallback_prices ''BTC'' = Some 95000"
    by (simp add: price_of_def prices_get_def falsy_def to_number_def fallback_prices_def)
  have h8: "price_of fallback_prices ''USDT'' = Some 1"
    by (simp add: price_of_def prices_get_def falsy_def to_number_def fallback_prices_def)
  have btc: "available st0 ''alice'' ''BTC'' = 2"
    by (simp add: available_def st0_def)
  have usdt: "available st0 ''alice'' ''USDT'' = 1000"
    by (simp add: available_def st0_def alice_def)
  note t = convert_default_target [of no_faults fallback_prices st0 convert_btc]
  from t have same: "convert no_faults fallback_prices st0 (convert_btc\<lparr>toCurrency := None\<rparr>) =
     convert no_faults fallback_prices st0 (convert_btc\<lparr>toCurrency := Some ''USDT''\<rparr>)"
    by blast
  from t have kept: "fst (convert no_faults fallback_prices st0
       (convert_btc\<lparr>fromCurrency := Some ''USDT'', toCurrency := None\<rparr>)) = st0"
    by blast
  from t h1 h4 have refused: "snd (convert no_faults fallback_prices st0
       (convert_btc\<lparr>fromCurrency := Some ''USDT'', toCurrency := None\<rparr>)) =
         Error 400 ''Cannot convert to same currency''"
    by simp
  from t have "present (c_username convert_btc) = Some ''alice'' \<and> users st0 ''alice'' \<noteq> None \<and>
      present (fromCurrency convert_btc) = Some ''BTC'' \<and> ''BTC'' \<noteq> ''USDT'' \<and>
      c_amount convert_btc = Some 1 \<and> (0::real) < 1 \<and>
      price_of fallback_prices ''BTC'' = Some 95000 \<and> price_of fallback_prices ''USDT'' = Some 1 \<and>
      1 \<le> available st0 ''alice'' ''BTC'' \<longrightarrow>
      snd (convert no_faults fallback_prices st0 (convert_btc\<lparr>toCurrency := None\<rparr>)) =
        Converted (1 * 95000 / 1) (95000 / 1) \<and>
      available (fst (convert no_faults fallback_prices st0 (convert_btc\<lparr>toCurrency := None\<rparr>)))
        ''alice'' ''USDT'' = available st0 ''alice'' ''USDT'' + 1 * 95000 / 1"
    by blast
  with h1 h2 h3 h4 h7 h8 btc usdt
  have credited: "snd (convert no_faults fallback_prices st0 (convert_btc\<lparr>toCurrency := None\<rparr>)) =
        Converted 95000 95000 \<and>
      available (fst (convert no_faults fallback_prices st0 (convert_btc\<lparr>toCurrency := None\<rparr>)))
        ''alice'' ''USDT'' = 96000"
    by simp
  from same kept refused credited h1 h4 show ?thesis
    by (simp add: prod_eq_iff)
qed

section \<open>Failure and rollback\<close>

text \<open>The conversion and the withdrawal run inside a transaction: whatever the
  database does, either the handler reports success or the store is as before.\<close>

lemma convert_atomic:
  "fst (convert F prices st req) = st \<or>
   (\<exists>t r. snd (convert F prices st req) = Converted t r) \<or>
   snd (convert F prices st req) = Converted_null"
  by (auto simp: convert_def convert_db_def store_of_def converted_def Let_def
      split: option.splits sum.splits prod.splits if_splits)

lemma withdraw_atomic:
  "fst (withdraw F st req) = st \<or> (\<exists>i. snd (withdraw F st req) = Pending i)"
  by (auto simp: withdraw_def Let_def split: option.splits sum.splits prod.splits if_splits)

text \<open>
  \<^bold>\<open>Claim C3.\<close> The claim is that every money-moving sequence is atomic, the trade
  settlement's row append plus balance credit included. The trade handler opens no
  transaction: when its \<^verbatim>\<open>UPDATE users\<close> throws after the \<^verbatim>\<open>INSERT INTO trades\<close>, the
  handler answers 500 \<^verbatim>\<open>Trade failed\<close>, the row of the winning trade with profit 50
  stays in the table, and Alice's balance is not credited.
\<close>

theorem trade_not_atomic:
  "snd (trade update_fails st0 trade_long) = Error 500 ''Trade failed'' \<and>
   trades st0 = [] \<and>
   trades (fst (trade update_fails st0 trade_long)) =
     [\<lparr>t_username = ''alice'', t_symbol = ''BTC'', t_side = ''long'', t_amount = 100,
       t_profit = 50, t_result = ''win''\<rparr>] \<and>
   users (fst (trade update_fails st0 trade_long)) ''alice'' = users st0 ''alice''"
  by (simp add: trade_def update_fails_def no_faults_def st0_def alice_def trade_long_def
      minAmount_def nonzero_def resolve_percent_def tier_percent_def insert_trade_def Let_def)

section \<open>The two representations of USDT\<close>

text \<open>The credit of a conversion into USDT and the admin's coin credit raise
  \<^verbatim>\<open>users.balance\<close> and the USDT row of \<^verbatim>\<open>user_balances\<close> by the same amount.\<close>

lemma convert_credit_synced:
  assumes "from \<noteq> ''USDT''" and "users st u = Some usr"
  shows "map_option balance
           (users (typed (fold (\<lambda>(s, upd). upd) (convert_body u from ''USDT'' a (Some t))
                            (store_of st))) u) =
             Some (balance usr + t) \<and>
         user_balances (typed (fold (\<lambda>(s, upd). upd) (convert_body u from ''USDT'' a (Some t))
                                 (store_of st))) (u, ''USDT'') =
             Some (case user_balances st (u, ''USDT'') of None \<Rightarrow> t | Some m \<Rightarrow> m + t)"
  using assms
  by (auto simp: convert_body_def store_of_def on_typed_def credit_balance_def credit_coin_def
      log_convert_def add_balance_def sub_coin_def upsert_coin_def insert_trade_def
      split: option.splits)

lemma add_coin_balance_synced:
  assumes "u \<noteq> []" and "users st u = Some usr"
  shows "map_option balance (users (fst (add_coin_balance st (Some u) (Some ''USDT'') (Some val))) u) =
           Some (balance usr + val) \<and>
         user_balances (fst (add_coin_balance st (Some u) (Some ''USDT'') (Some val))) (u, ''USDT'') =
           Some (case user_balances st (u, ''USDT'') of None \<Rightarrow> val | Some m \<Rightarrow> m + val)"
  using assms
  by (auto simp: add_coin_balance_def present_def add_balance_def upsert_coin_def Let_def
      split: option.splits)

text \<open>
  \<^bold>\<open>Claim C4.\<close> The claim is that every credit of USDT raises \<^verbatim>\<open>users.balance\<close> and an
  existing USDT row of \<^verbatim>\<open>user_balances\<close> by the same amount. Alice has both, at 1000.
  Three of the five paths credit \<^verbatim>\<open>users.balance\<close> alone: after a winning trade with
  profit 50, after the approval of a deposit of 200, and after the rejection of a
  withdrawal of 40 held in the table, her balance has grown by 50, 200 and 40, and
  her USDT row has not grown.
\<close>

theorem usdt_credit_skips_mirror:
  "map_option balance (users st0 ''alice'') = Some 1000 \<and>
   user_balances st0 (''alice'', ''USDT'') = Some 1000 \<and>
   snd (trade no_faults st0 trade_long) = Settled ''win'' 50 \<and>
   map_option balance (users (fst (trade no_faults st0 trade_long)) ''alice'') = Some 1050 \<and>
   user_balances (fst (trade no_faults st0 trade_long)) (''alice'', ''USDT'') = Some 1000 \<and>
   map_option balance
     (users (fst (deposit_status (fst (deposit st0 (deposit_usdt 200))) 1 ''approved''))
        ''alice'') = Some 1200 \<and>
   user_balances (fst (deposit_status (fst (deposit st0 (deposit_usdt 200))) 1 ''approved''))
     (''alice'', ''USDT'') = Some 1000 \<and>
   map_option balance
     (users (fst (withdraw_status
                    (insert_withdrawal
                       \<lparr>w_username = ''alice'', w_currency = ''USDT'', w_network = ''TRC20'',
                        w_amount = 40, w_address = ''T1'', w_status = ''pending''\<rparr> st0)
                    1 ''rejected''))
        ''alice'') = Some 1040 \<and>
   user_balances (fst (withdraw_status
                    (insert_withdrawal
                       \<lparr>w_username = ''alice'', w_currency = ''USDT'', w_network = ''TRC20'',
                        w_amount = 40, w_address = ''T1'', w_status = ''pending''\<rparr> st0)
                    1 ''rejected''))
     (''alice'', ''USDT'') = Some 1000"
  by (simp add: trade_def no_faults_def st0_def alice_def trade_long_def
      minAmount_def nonzero_def resolve_percent_def tier_percent_def insert_trade_def
      add_balance_def deposit_status_def deposit_def deposit_usdt_def present_def frozen_def
      insert_deposit_def set_deposit_status_def row_def withdraw_status_def
      insert_withdrawal_def set_withdrawal_status_def Let_def)

section \<open>Withdrawal: escrow and refund\<close>

text \<open>An approval changes the status of the row and nothing else.\<close>

lemma approval_keeps_balances:
  "users (fst (withdraw_status st i ''approved'')) = users st \<and>
   user_balances (fst (withdraw_status st i ''approved'')) = user_balances st"
  by (simp add: withdraw_status_def set_withdrawal_status_def Let_def split: option.splits)

text \<open>For a currency other than USDT the refund goes back to the row the withdrawal
  was taken from: a withdrawal that is accepted and then rejected leaves both
  balance tables as they were.\<close>

lemma coin_withdrawal_deducts:
  assumes "present (wr_username req) = Some u" and "\<not> frozen st u"
    and "present (wr_currency req) = Some c" and "c \<noteq> ''USDT''"
    and "present (wr_network req) = Some n" and "present (wr_address req) = Some ad"
    and "nonzero (wr_amount req) = Some a"
    and "user_balances st (u, c) = Some b" and "a \<le> b"
  shows "withdraw no_faults st req =
           (insert_withdrawal
              \<lparr>w_username = u, w_currency = c, w_network = n, w_amount = a, w_address = ad,
               w_status = ''pending''\<rparr> (sub_coin u c a st),
            Pending (Suc (length (withdrawals st))))"
  using assms
  by (simp add: withdraw_def deduct_def no_faults_def insert_withdrawal_def sub_coin_def)

lemma coin_withdrawal_roundtrip:
  assumes "present (wr_username req) = Some u" and "\<not> frozen st u"
    and "present (wr_currency req) = Some c" and "c \<noteq> ''USDT''"
    and "present (wr_network req) = Some n" and "present (wr_address req) = Some ad"
    and "nonzero (wr_amount req) = Some a"
    and "user_balances st (u, c) = Some b" and "a \<le> b"
  shows "users (fst (withdraw_status (fst (withdraw no_faults st req))
                       (Suc (length (withdrawals st))) ''rejected'')) = users st \<and>
         user_balances (fst (withdraw_status (fst (withdraw no_faults st req))
                       (Suc (length (withdrawals st))) ''rejected'')) = user_balances st"
  using assms(4,8)
  by (simp add: coin_withdrawal_deducts [OF assms] withdraw_status_def insert_withdrawal_def
      sub_coin_def row_def set_withdrawal_status_def upsert_coin_def Let_def nth_append
      map_upd_triv)

text \<open>
  \<^bold>\<open>Claim C5.\<close> The claim is that a withdrawal takes the amount from its currency at
  once, that a rejection gives it back and restores the balances exactly, and that
  an approval changes no balance. For USDT the round trip does not close. Alice
  holds 1000 USDT in \<^verbatim>\<open>users.balance\<close> and in her USDT row. Her withdrawal of 40 is
  taken from the USDT row (960) and leaves \<^verbatim>\<open>users.balance\<close> at 1000; the rejection
  adds 40 to \<^verbatim>\<open>users.balance\<close> (1040) and leaves the row at 960.
\<close>

theorem usdt_withdrawal_roundtrip:
  "map_option balance (users st0 ''alice'') = Some 1000 \<and>
   user_balances st0 (''alice'', ''USDT'') = Some 1000 \<and>
   snd (withdraw no_faults st0 (withdraw_usdt 40)) = Pending 1 \<and>
   map_option balance (users (fst (withdraw no_faults st0 (withdraw_usdt 40))) ''alice'') =
     Some 1000 \<and>
   user_balances (fst (withdraw no_faults st0 (withdraw_usdt 40))) (''alice'', ''USDT'') =
     Some 960 \<and>
   snd (withdraw_status (fst (withdraw no_faults st0 (withdraw_usdt 40))) 1 ''rejected'') =
     Success \<and>
   map_option balance
     (users (fst (withdraw_status (fst (withdraw no_faults st0 (withdraw_usdt 40))) 1
                    ''rejected'')) ''alice'') = Some 1040 \<and>
   user_balances (fst (withdraw_status (fst (withdraw no_faults st0 (withdraw_usdt 40))) 1
                    ''rejected'')) (''alice'', ''USDT'') = Some 960"
  by (simp add: withdraw_def withdraw_status_def withdraw_usdt_def present_def nonzero_def
      frozen_def st0_def alice_def deduct_def sub_coin_def insert_withdrawal_def
      set_withdrawal_status_def row_def add_balance_def Let_def no_faults_def)

section \<open>Trade tiers\<close>

text \<open>A matching tier whose percent is a number other than zero decides the payout,
  whatever the caller sent.\<close>

lemma tier_percent_used:
  assumes "nonzero (tr_seconds req) = Some secs"
    and "find (\<lambda>s. seconds s = secs) (trade_settings usr) = Some setting"
    and "percent setting = Some p" and "p \<noteq> 0"
  shows "resolve_percent usr req = p"
  using assms by (simp add: resolve_percent_def tier_percent_def nonzero_def)

text \<open>
  \<^bold>\<open>Claim C8.\<close> The claim is that a duration matching one of the user's tiers makes
  the settlement use that tier's percent, whatever percent the caller sent. The
  handler tests the tier's percent with \<^verbatim>\<open>!percent\<close>, which also holds of the number
  zero: Alice's 120 second tier pays 0 percent, the caller sends 500, and her
  winning trade of 100 is settled at 500 percent, with profit 500 instead of 0.
\<close>

theorem zero_tier_percent_overridden:
  "find (\<lambda>s. seconds s = 120) (trade_settings alice) = Some \<lparr>seconds = 120, percent = Some 0\<rparr> \<and>
   tr_seconds trade_tier = Some 120 \<and> tr_percent trade_tier = Some 500 \<and>
   resolve_percent alice trade_tier = 500 \<and>
   snd (trade no_faults st0 trade_tier) = Settled ''win'' 500 \<and>
   map_option balance (users (fst (trade no_faults st0 trade_tier)) ''alice'') = Some 1500"
  by (simp add: trade_def no_faults_def st0_def alice_def trade_long_def trade_tier_def
      minAmount_def nonzero_def resolve_percent_def tier_percent_def insert_trade_def
      add_balance_def Let_def)

section \<open>Validation of the amount\<close>

text \<open>The conversion and the trade refuse an amount that is missing or not positive,
  and the withdrawal one that is missing or zero, before they change the store.\<close>

lemma convert_rejects_nonpositive:
  assumes "c_amount req = None \<or> (\<exists>a. c_amount req = Some a \<and> a \<le> 0)"
  shows "fst (convert F prices st req) = st \<and>
         (snd (convert F prices st req) = Error 400 ''Invalid parameters'' \<or>
          snd (convert F prices st req) = Error 401 ''Unauthorized'')"
  using assms
  by (auto simp: convert_def convert_db_def store_of_def nonzero_def Let_def
      split: option.splits)

lemma trade_rejects_nonpositive:
  assumes "tr_amount req = None \<or> (\<exists>a. tr_amount req = Some a \<and> a \<le> 0)"
  shows "fst (trade F st req) = st \<and> (\<exists>code msg. snd (trade F st req) = Error code msg)"
  using assms
  by (auto simp: trade_def Let_def split: option.splits)

lemma withdraw_rejects_zero:
  assumes "wr_amount req = None \<or> wr_amount req = Some 0"
  shows "fst (withdraw F st req) = st \<and>
         (snd (withdraw F st req) = Unhandled \<or>
          (\<exists>code msg. snd (withdraw F st req) = Error code msg))"
  using assms
  by (auto simp: withdraw_def nonzero_def split: option.splits)

text \<open>
  \<^bold>\<open>Claim C9.\<close> The claim is that every fund-moving request whose amount is missing,
  malformed or not positive is refused before the store changes, negative amounts
  of a deposit or a withdrawal included. The withdrawal handler tests \<^verbatim>\<open>!amount\<close>
  only: Alice's withdrawal of \<open>- 50\<close> USDT is accepted, her USDT row grows from 1000
  to 1050 and a pending withdrawal of \<open>- 50\<close> is recorded. The deposit handler tests
  nothing: a deposit of \<open>- 50\<close> is recorded as pending.
\<close>

theorem negative_amount_accepted:
  "user_balances st0 (''alice'', ''USDT'') = Some 1000 \<and>
   snd (withdraw no_faults st0 (withdraw_usdt (- 50))) = Pending 1 \<and>
   user_balances (fst (withdraw no_faults st0 (withdraw_usdt (- 50)))) (''alice'', ''USDT'') =
     Some 1050 \<and>
   withdrawals (fst (withdraw no_faults st0 (withdraw_usdt (- 50)))) =
     [\<lparr>w_username = ''alice'', w_currency = ''USDT'', w_network = ''TRC20'', w_amount = - 50,
       w_address = ''T1'', w_status = ''pending''\<rparr>] \<and>
   snd (deposit st0 (deposit_usdt (- 50))) = Pending 1 \<and>
   deposits (fst (deposit st0 (deposit_usdt (- 50)))) =
     [\<lparr>d_username = ''alice'', d_currency = Some ''USDT'', d_network = Some ''TRC20'',
       d_amount = - 50, d_proof_image = None, d_status = ''pending''\<rparr>]"
  by (simp add: withdraw_def withdraw_usdt_def present_def nonzero_def frozen_def st0_def
      alice_def deduct_def sub_coin_def insert_withdrawal_def no_faults_def
      deposit_def deposit_usdt_def insert_deposit_def Let_def)

end
